theory Spec2Isabelle
  imports Main
begin

section \<open>The spreadsheet importer (src/utils/xlsx-importer.py)\<close>

text \<open>
  The script reads a spreadsheet into a data frame, walks its rows in order, builds one
  dictionary \<open>event_data\<close> per row and sends it with one blocking insert request to the
  remote table \<open>events\<close>. Nothing is caught: the first exception ends the run.

  Three libraries are called and are not part of the repository: the spreadsheet reader
  (its result, the data frame, is the input of the model, and \<open>iterrows\<close> is modelled with
  its conversion of a row to one dtype), the JSON decoder (\<open>json.loads\<close>, a parameter of
  the model) and the database client (the remote service, a parameter of the model).
\<close>

subsection \<open>Values\<close>

text \<open>
  A cell of the data frame as the spreadsheet reader delivers it. \<open>NaN\<close> is the empty
  cell, \<open>NaT\<close> the empty cell of a date column. A finite float is carried as a mantissa
  and a binary exponent; it is never computed with.
\<close>

datatype cell =
    NaN
  | NaT
  | CBool bool
  | CInt int
  | CFloat int int
  | CStr string
  | CTimestamp int

text \<open>What \<open>json.loads\<close> returns: \<open>None\<close>, a bool, a number, a string, a list or a dict.\<close>

datatype json =
    JNull
  | JBool bool
  | JInt int
  | JFloat int int
  | JStr string
  | JList "json list"
  | JDict "(string \<times> json) list"

text \<open>
  A value of the dictionary \<open>event_data\<close>: a cell taken from the row, or the value the
  metadata expression produced.
\<close>

datatype entry = Cell cell | Parsed json

text \<open>
  The dictionary \<open>event_data\<close>, as the list of its items in the order the dict display
  writes them.
\<close>

type_synonym event = "(string \<times> entry) list"

text \<open>
  The exceptions the loop can meet: \<open>KeyError\<close> from \<open>row[k]\<close>, \<open>TypeError\<close> and
  \<open>JSONDecodeError\<close> from \<open>json.loads\<close>, and \<open>InsertError\<close> for whatever the insert request
  raises (an error answer of the service, a transport error).
\<close>

datatype error =
    KeyError string
  | TypeError
  | JSONDecodeError
  | InsertError

subsection \<open>The data frame and its rows\<close>

text \<open>
  A row handed out by \<open>iterrows\<close> is a Series: the cells of the row indexed by the column
  labels. The spreadsheet reader renames duplicate headers, so a label names one cell.
\<close>

type_synonym series = "string \<rightharpoonup> cell"

text \<open>The dtype of a column of the frame.\<close>

datatype dtype = Int64 | Float64 | Bool | Datetime64 | Object

text \<open>
  The data frame: the column labels, the dtype of each column, and the data rows, each
  with one cell per column.
\<close>

record dataframe =
  columns :: "string list"
  dtypes :: "dtype list"
  data :: "cell list list"

text \<open>
  The dtype of \<open>df.values\<close>, the common dtype of the columns: the dtype of the columns when
  they all have the same, \<open>float64\<close> when they are \<open>int64\<close> and \<open>float64\<close> columns, and
  \<open>object\<close> for every other mixture. A frame without columns has \<open>float64\<close> values.
\<close>

definition common_dtype :: "dtype list \<Rightarrow> dtype" where
  "common_dtype ds =
     (case remdups ds of
        [] \<Rightarrow> Float64
      | [d] \<Rightarrow> d
      | _ \<Rightarrow> if set ds \<subseteq> {Int64, Float64} then Float64 else Object)"

text \<open>\<open>a / 2 ^ k\<close> rounded to the nearest integer, a tie to the even one.\<close>

definition round_shift :: "int \<Rightarrow> nat \<Rightarrow> int" where
  "round_shift a k =
     (let q = a div 2 ^ k; r = a mod 2 ^ k
      in if 2 ^ k < 2 * r \<or> (2 * r = 2 ^ k \<and> odd q) then q + 1 else q)"

text \<open>
  An \<open>int64\<close> value as \<open>float64\<close>: exact below \<open>2 ^ 53\<close> in magnitude, and rounded to 53
  binary digits above, where \<open>k\<close> is the number of binary digits beyond 53 (an \<open>int64\<close> has
  at most 64). \<open>CFloat m e\<close> is the float \<open>m * 2 ^ e\<close>.
\<close>

definition int_to_float64 :: "int \<Rightarrow> cell" where
  "int_to_float64 n =
     (if \<bar>n\<bar> < 2 ^ 53 then CFloat n 0
      else let k = length (filter (\<lambda>i. 2 ^ i \<le> \<bar>n\<bar>) [53..<64])
           in CFloat (sgn n * round_shift \<bar>n\<bar> k) (int k))"

text \<open>
  A cell of the frame as an element of \<open>df.values\<close>: under the common dtype \<open>float64\<close> an
  integer becomes a float; under every other common dtype the cell keeps its value and
  its type.
\<close>

fun astype :: "dtype \<Rightarrow> cell \<Rightarrow> cell" where
  "astype Float64 (CInt n) = int_to_float64 n"
| "astype d c = c"

text \<open>One row of \<open>df.values\<close>.\<close>

definition interleave :: "dtype list \<Rightarrow> cell list \<Rightarrow> cell list" where
  "interleave ds r = map (astype (common_dtype ds)) r"

text \<open>
  The Series over a list of cells. Its index is the header of the frame: a row with fewer
  cells than the header has empty cells in the remaining columns.
\<close>

definition row_series :: "string list \<Rightarrow> cell list \<Rightarrow> series" where
  "row_series cols r = map_of (zip cols (r @ replicate (length cols - length r) NaN))"

text \<open>
  The Series \<open>iterrows\<close> builds for a data row: the row of \<open>df.values\<close>, indexed by the
  column labels.
\<close>

definition series_of :: "string list \<Rightarrow> dtype list \<Rightarrow> cell list \<Rightarrow> series" where
  "series_of cols ds r = row_series cols (interleave ds r)"

text \<open>\<open>df.iterrows()\<close>: the pairs of row index and row Series, in the order of the sheet.\<close>

definition iterrows :: "dataframe \<Rightarrow> (nat \<times> series) list" where
  "iterrows df = enumerate 0 (map (series_of (columns df) (dtypes df)) (data df))"

text \<open>\<open>row[k]\<close>: a label that is not in the index raises \<open>KeyError\<close>.\<close>

definition getitem :: "series \<Rightarrow> string \<Rightarrow> error + cell" where
  "getitem row k = (case row k of None \<Rightarrow> Inl (KeyError k) | Some c \<Rightarrow> Inr c)"

text \<open>\<open>k in row\<close>: membership in the index of the Series.\<close>

definition contains :: "series \<Rightarrow> string \<Rightarrow> bool" where
  "contains row k = (k \<in> dom row)"

text \<open>\<open>pd.notna\<close> on a scalar cell.\<close>

fun notna :: "cell \<Rightarrow> bool" where
  "notna NaN = False"
| "notna NaT = False"
| "notna _ = True"

subsection \<open>Decoding the metadata\<close>

text \<open>
  The decoder stands for \<open>json.loads\<close> on a text: \<open>None\<close> when the text is not JSON.
\<close>

type_synonym decoder = "string \<Rightarrow> json option"

text \<open>
  \<open>json.loads(c)\<close> on a cell: an argument that is not a string raises \<open>TypeError\<close>, a string
  that is not JSON raises \<open>JSONDecodeError\<close>.
\<close>

definition json_loads :: "decoder \<Rightarrow> cell \<Rightarrow> error + json" where
  "json_loads dec c =
     (case c of
        CStr s \<Rightarrow> (case dec s of None \<Rightarrow> Inl JSONDecodeError | Some v \<Rightarrow> Inr v)
      | _ \<Rightarrow> Inl TypeError)"

definition bind_result :: "error + 'a \<Rightarrow> ('a \<Rightarrow> error + 'b) \<Rightarrow> error + 'b" where
  "bind_result m f = (case m of Inl e \<Rightarrow> Inl e | Inr x \<Rightarrow> f x)"

text \<open>
  Line 32, the conditional expression
  \<^verbatim>\<open>json.loads(row["metadata"]) if "metadata" in row and pd.notna(row["metadata"]) else {}\<close>.
  The condition is evaluated first, \<open>and\<close> from left to right.
\<close>

definition metadata_value :: "decoder \<Rightarrow> series \<Rightarrow> error + json" where
  "metadata_value dec row =
     (if contains row ''metadata'' then
        bind_result (getitem row ''metadata'') (\<lambda>c.
          if notna c then bind_result (getitem row ''metadata'') (json_loads dec)
          else Inr (JDict []))
      else Inr (JDict []))"

text \<open>
  Lines 27 to 33, the dict display: the five values are evaluated from top to bottom, and
  the first exception leaves the display.
\<close>

definition event_data :: "decoder \<Rightarrow> series \<Rightarrow> error + event" where
  "event_data dec row =
     bind_result (getitem row ''recording_id'') (\<lambda>rid.
     bind_result (getitem row ''event_type_id'') (\<lambda>et.
     bind_result (getitem row ''timestamp'') (\<lambda>ts.
     bind_result (getitem row ''offset_ms'') (\<lambda>off.
     bind_result (metadata_value dec row) (\<lambda>md.
       Inr [(''recording_id'', Cell rid),
            (''event_type_id'', Cell et),
            (''timestamp'', Cell ts),
            (''offset_ms'', Cell off),
            (''metadata'', Parsed md)])))))"

subsection \<open>The remote service\<close>

text \<open>
  What the run leaves outside the process: the insert requests it issued, oldest first,
  each with the name of its table, and the records committed to the table \<open>events\<close>.
\<close>

record world =
  requests :: "(string \<times> event) list"
  committed :: "event list"

text \<open>
  The remote service answers one request at a time: given what has happened so far, it
  accepts the record or it fails (network error, schema violation, authentication).
\<close>

type_synonym backend = "world \<Rightarrow> string \<Rightarrow> event \<Rightarrow> bool"

text \<open>
  Line 34, \<^verbatim>\<open>supabase.table(t).insert(ev).execute()\<close>: one blocking request. An accepted
  record is committed; a failed request raises and commits nothing.
\<close>

definition insert_execute :: "backend \<Rightarrow> string \<Rightarrow> event \<Rightarrow> world \<Rightarrow> error option \<times> world" where
  "insert_execute be t ev w =
     (let w' = w\<lparr>requests := requests w @ [(t, ev)]\<rparr>
      in if be w t ev then (None, w'\<lparr>committed := committed w' @ [ev]\<rparr>)
         else (Some InsertError, w'))"

subsection \<open>The loop\<close>

text \<open>The body of the loop, lines 27 to 34, for one row.\<close>

definition process_row :: "backend \<Rightarrow> decoder \<Rightarrow> series \<Rightarrow> world \<Rightarrow> error option \<times> world" where
  "process_row be dec row w =
     (case event_data dec row of
        Inl e \<Rightarrow> (Some e, w)
      | Inr ev \<Rightarrow> insert_execute be ''events'' ev w)"

text \<open>
  The \<open>for\<close> loop of line 26 over the rows: an exception in the body ends it, and the
  rows that follow are not looked at.
\<close>

fun import_rows :: "backend \<Rightarrow> decoder \<Rightarrow> series list \<Rightarrow> world \<Rightarrow> error option \<times> world" where
  "import_rows be dec [] w = (None, w)"
| "import_rows be dec (row # rest) w =
     (case process_row be dec row w of
        (Some e, w') \<Rightarrow> (Some e, w')
      | (None, w') \<Rightarrow> import_rows be dec rest w')"

text \<open>
  The script from line 23 on, for the data frame the reader returned: the loop takes the
  row of each pair and drops the index. The result is the uncaught exception, if any, and
  the world the run leaves.
\<close>

definition main :: "backend \<Rightarrow> decoder \<Rightarrow> dataframe \<Rightarrow> world \<Rightarrow> error option \<times> world" where
  "main be dec df w = import_rows be dec (map snd (iterrows df)) w"

subsection \<open>Vocabulary of the statements\<close>

text \<open>The four columns the dict display reads without a test.\<close>

definition required_columns :: "string list" where
  "required_columns = [''recording_id'', ''event_type_id'', ''timestamp'', ''offset_ms'']"

text \<open>A decoded value that is a dict, as opposed to \<open>None\<close>, a number, a string or a list.\<close>

fun is_dict :: "json \<Rightarrow> bool" where
  "is_dict (JDict kvs) = True"
| "is_dict _ = False"

subsection \<open>Sample inputs\<close>

text \<open>
  The values of \<open>json.loads\<close> on the texts used in the examples below; the text
  \<open>{bad json\<close> is not in the table, as it is not JSON. The theorems hold for every decoder.
\<close>

definition decoder_excerpt :: decoder where
  \<open>decoder_excerpt = map_of
     [(''{"a":1}'', JDict [(''a'', JInt 1)]),
      (''null'', JNull),
      (''[1, 2]'', JList [JInt 1, JInt 2])]\<close>

text \<open>A service that accepts every request, and one that fails from request \<open>n\<close> on.\<close>

definition accept_all :: backend where
  "accept_all w t ev = True"

definition fail_from :: "nat \<Rightarrow> backend" where
  "fail_from n w t ev = (length (requests w) < n)"

text \<open>The world before the run, with an empty table.\<close>

definition start :: world where
  "start = \<lparr>requests = [], committed = []\<rparr>"

text \<open>A header with the five columns, the dtypes of a sheet with text in two columns, and
  five data rows.\<close>

definition header :: "string list" where
  "header = [''recording_id'', ''event_type_id'', ''timestamp'', ''offset_ms'', ''metadata'']"

definition header_dtypes :: "dtype list" where
  "header_dtypes = [Int64, Int64, Object, Int64, Object]"

definition row_a :: "cell list" where
  \<open>row_a = [CInt 1, CInt 10, CStr ''2024-01-01T00:00:00'', CInt 0, CStr ''{"a":1}'']\<close>

definition row_b :: "cell list" where
  "row_b = [CInt 1, CInt 11, CStr ''yesterday'', CInt (- 5), NaN]"

definition row_c :: "cell list" where
  "row_c = [CInt 2, CInt 10, CStr ''2024-01-03T00:00:00'', CInt 3, CStr ''[1, 2]'']"

definition row_d :: "cell list" where
  "row_d = [CInt 3, CInt 10, NaT, CBool True, CStr ''null'']"

definition row_bad :: "cell list" where
  "row_bad = [CInt 2, CInt 12, CStr ''2024-01-02T00:00:00'', CInt 40, CStr ''{bad json'']"

text \<open>
  The dtypes and a data row of a sheet of integers whose metadata column is empty.
\<close>

definition numeric_dtypes :: "dtype list" where
  "numeric_dtypes = [Int64, Int64, Int64, Int64, Float64]"

definition row_n :: "cell list" where
  "row_n = [CInt 1, CInt 10, CInt 1700000000, CInt (- 5), NaN]"

text \<open>The record expected for a data row under \<open>header\<close>, given its metadata value.\<close>

definition event_of :: "cell list \<Rightarrow> json \<Rightarrow> event" where
  "event_of r m =
     [(''recording_id'', Cell (r ! 0)), (''event_type_id'', Cell (r ! 1)),
      (''timestamp'', Cell (r ! 2)), (''offset_ms'', Cell (r ! 3)), (''metadata'', Parsed m)]"

section \<open>Properties\<close>

subsection \<open>Auxiliary facts\<close>

lemmas sample_defs = header_def header_dtypes_def row_a_def row_b_def row_c_def row_d_def row_bad_def event_of_def
  decoder_excerpt_def accept_all_def fail_from_def start_def

lemmas eval_defs = row_series_def series_of_def interleave_def common_dtype_def int_to_float64_def
  event_data_def metadata_value_def getitem_def contains_def
  bind_result_def json_loads_def process_row_def insert_execute_def main_def iterrows_def
  enumerate_eq_zip Let_def

lemma metadata_value_cases:
  "metadata_value dec row =
     (case row ''metadata'' of
        None \<Rightarrow> Inr (JDict [])
      | Some c \<Rightarrow> if notna c then json_loads dec c else Inr (JDict []))"
  by (auto simp: metadata_value_def contains_def getitem_def bind_result_def dom_def
           split: option.splits)

lemma event_data_Inr_iff:
  "event_data dec row = Inr ev \<longleftrightarrow>
     (\<exists>a b c d m. row ''recording_id'' = Some a \<and> row ''event_type_id'' = Some b \<and>
        row ''timestamp'' = Some c \<and> row ''offset_ms'' = Some d \<and>
        metadata_value dec row = Inr m \<and>
        ev = [(''recording_id'', Cell a), (''event_type_id'', Cell b), (''timestamp'', Cell c),
              (''offset_ms'', Cell d), (''metadata'', Parsed m)])"
  by (auto simp: event_data_def getitem_def bind_result_def split: option.splits sum.splits)

lemma map_snd_iterrows:
  "map snd (iterrows df) = map (series_of (columns df) (dtypes df)) (data df)"
  by (simp add: iterrows_def)

lemma import_rows_append:
  "import_rows be dec (xs @ ys) w =
     (case import_rows be dec xs w of
        (Some e, w') \<Rightarrow> (Some e, w')
      | (None, w') \<Rightarrow> import_rows be dec ys w')"
  by (induction xs arbitrary: w) (auto split: prod.splits option.splits)


lemma process_row_None:
  "process_row be dec row w = (None, w') \<longleftrightarrow>
     (\<exists>ev. event_data dec row = Inr ev \<and> be w ''events'' ev \<and>
        w' = w\<lparr>requests := requests w @ [(''events'', ev)], committed := committed w @ [ev]\<rparr>)"
  by (auto simp: process_row_def insert_execute_def Let_def split: sum.splits)

lemma process_row_Some:
  "process_row be dec row w = (Some e, w') \<longleftrightarrow>
     (event_data dec row = Inl e \<and> w' = w) \<or>
     (\<exists>ev. event_data dec row = Inr ev \<and> \<not> be w ''events'' ev \<and> e = InsertError \<and>
        w' = w\<lparr>requests := requests w @ [(''events'', ev)]\<rparr>)"
  by (auto simp: process_row_def insert_execute_def Let_def split: sum.splits)

lemma import_rows_complete:
  "import_rows be dec rows w = (None, w') \<Longrightarrow>
     \<exists>evs. map (event_data dec) rows = map Inr evs \<and>
       w' = w\<lparr>requests := requests w @ map (Pair ''events'') evs,
              committed := committed w @ evs\<rparr>"
proof (induction rows arbitrary: w)
  case Nil
  then show ?case by simp
next
  case (Cons row rest)
  from Cons.prems obtain w1 where
    step: "process_row be dec row w = (None, w1)" and
    tail: "import_rows be dec rest w1 = (None, w')"
    by (auto split: prod.splits option.splits)
  from step obtain ev where
    ev: "event_data dec row = Inr ev" and
    w1: "w1 = w\<lparr>requests := requests w @ [(''events'', ev)], committed := committed w @ [ev]\<rparr>"
    by (auto simp: process_row_None)
  from Cons.IH [OF tail] obtain evs where
    evs: "map (event_data dec) rest = map Inr evs" and
    w': "w' = w1\<lparr>requests := requests w1 @ map (Pair ''events'') evs,
                  committed := committed w1 @ evs\<rparr>"
    by blast
  have "map (event_data dec) (row # rest) = map Inr (ev # evs)"
    using ev evs by simp
  moreover have "w' = w\<lparr>requests := requests w @ map (Pair ''events'') (ev # evs),
                         committed := committed w @ (ev # evs)\<rparr>"
    using w' w1 by simp
  ultimately show ?case by blast
qed

lemma import_rows_error_kind:
  "import_rows be dec rows w = (Some e, w') \<Longrightarrow>
   \<forall>r \<in> set rows. \<exists>ev. event_data dec r = Inr ev \<Longrightarrow> e = InsertError"
proof (induction rows arbitrary: w)
  case Nil
  then show ?case by simp
next
  case (Cons row rest)
  show ?case
  proof (cases "process_row be dec row w")
    case (Pair r w1)
    show ?thesis
    proof (cases r)
      case None
      with Pair Cons.prems have "import_rows be dec rest w1 = (Some e, w')" by simp
      with Cons.IH Cons.prems(2) show ?thesis by simp
    next
      case (Some e1)
      with Pair Cons.prems have "process_row be dec row w = (Some e, w')" by simp
      with Cons.prems(2) show ?thesis by (auto simp: process_row_Some)
    qed
  qed
qed

lemma dom_row_series: "dom (row_series cols r) = set cols"
proof -
  let ?ys = "r @ replicate (length cols - length r) NaN"
  have "length cols \<le> length ?ys" by simp
  then have "map fst (zip cols ?ys) = cols"
    by (simp add: map_fst_zip_take)
  then have "fst ` set (zip cols ?ys) = set cols"
    by (metis set_map)
  then show ?thesis
    by (simp add: row_series_def dom_map_of_conv_image_fst)
qed

lemma dom_series_of: "dom (series_of cols ds r) = set cols"
  by (simp add: series_of_def dom_row_series)

lemma row_series_map:
  assumes "f NaN = NaN"
  shows "row_series cols (map f r) k = map_option f (row_series cols r k)"
proof -
  let ?n = "length cols - length r"
  have "map f r @ replicate ?n NaN = map f (r @ replicate ?n NaN)"
    using assms by simp
  then have "zip cols (map f r @ replicate ?n NaN) =
      map (\<lambda>(x, y). (x, f y)) (zip cols (r @ replicate ?n NaN))"
    by (simp only: zip_map2)
  then show ?thesis
    by (simp add: row_series_def map_of_map)
qed

lemma series_of_lookup:
  "series_of cols ds r k = map_option (astype (common_dtype ds)) (row_series cols r k)"
proof -
  have "astype (common_dtype ds) NaN = NaN" by simp
  then show ?thesis
    unfolding series_of_def interleave_def by (rule row_series_map)
qed

lemma bad_metadata_Inl:
  assumes "row ''metadata'' = Some c" and "notna c" and "json_loads dec c = Inl e"
  shows "\<exists>e'. event_data dec row = Inl e'"
proof (cases "event_data dec row")
  case (Inl e')
  then show ?thesis by blast
next
  case (Inr ev)
  then have "\<exists>m. metadata_value dec row = Inr m"
    by (auto simp: event_data_Inr_iff)
  with assms show ?thesis
    by (simp add: metadata_value_cases)
qed

lemma bad_metadata_error:
  assumes "row ''metadata'' = Some c" and "notna c" and "json_loads dec c = Inl e"
    and "\<forall>k \<in> set required_columns. k \<in> dom row"
  shows "event_data dec row = Inl e"
proof -
  have "metadata_value dec row = Inl e"
    using assms(1-3) by (simp add: metadata_value_cases)
  moreover from assms(4) obtain a b c' d where
    "row ''recording_id'' = Some a" "row ''event_type_id'' = Some b"
    "row ''timestamp'' = Some c'" "row ''offset_ms'' = Some d"
    by (auto simp: required_columns_def)
  ultimately show ?thesis
    by (simp add: event_data_def getitem_def bind_result_def)
qed

lemma import_rows_stop:
  assumes "event_data dec row = Inl e"
  shows "import_rows be dec (xs @ row # ys) w =
     (case import_rows be dec xs w of
        (Some e0, w0) \<Rightarrow> (Some e0, w0)
      | (None, w1) \<Rightarrow> (Some e, w1))"
  using assms
  by (simp add: import_rows_append process_row_def split: prod.splits option.splits)

lemma main_eq:
  "main be dec \<lparr>columns = cols, dtypes = ds, data = rs\<rparr> w =
     import_rows be dec (map (series_of cols ds) rs) w"
  by (simp add: main_def map_snd_iterrows)

lemma first_missing_KeyError:
  assumes "find (\<lambda>k. k \<notin> dom row) required_columns = Some k"
  shows "event_data dec row = Inl (KeyError k)"
proof (cases "row ''recording_id''")
  case None
  with assms show ?thesis
    by (simp add: required_columns_def event_data_def getitem_def bind_result_def domIff)
next
  case a: (Some a)
  show ?thesis
  proof (cases "row ''event_type_id''")
    case None
    with assms a show ?thesis
      by (simp add: required_columns_def event_data_def getitem_def bind_result_def domIff)
  next
    case b: (Some b)
    show ?thesis
    proof (cases "row ''timestamp''")
      case None
      with assms a b show ?thesis
        by (simp add: required_columns_def event_data_def getitem_def bind_result_def domIff)
    next
      case c: (Some c)
      show ?thesis
      proof (cases "row ''offset_ms''")
        case None
        with assms a b c show ?thesis
          by (simp add: required_columns_def event_data_def getitem_def bind_result_def domIff)
      next
        case (Some d)
        with assms a b c show ?thesis
          by (simp add: required_columns_def domIff)
      qed
    qed
  qed
qed

subsection \<open>The record built from a row\<close>

text \<open>
  C1. Whenever a row yields a record, the record's \<open>metadata\<close> is the value \<open>json.loads\<close>
  returns for the row's metadata cell if the column is present and the cell is not null,
  and the empty dict \<open>{}\<close> if the column is absent or the cell is null.
\<close>

theorem event_data_metadata:
  assumes "event_data dec row = Inr ev"
  shows "\<exists>m. map_of ev ''metadata'' = Some (Parsed m) \<and>
           (case row ''metadata'' of
              None \<Rightarrow> m = JDict []
            | Some c \<Rightarrow> if notna c then json_loads dec c = Inr m else m = JDict [])"
proof -
  from assms obtain m where
    m: "metadata_value dec row = Inr m" and "map_of ev ''metadata'' = Some (Parsed m)"
    by (auto simp: event_data_Inr_iff)
  moreover from m have
    "case row ''metadata'' of
       None \<Rightarrow> m = JDict []
     | Some c \<Rightarrow> if notna c then json_loads dec c = Inr m else m = JDict []"
    by (auto simp: metadata_value_cases split: option.splits if_splits)
  ultimately show ?thesis by blast
qed

theorem event_data_metadata_witness:
  "event_data decoder_excerpt (row_series header row_a) = Inr (event_of row_a (JDict [(''a'', JInt 1)])) \<and>
   event_data decoder_excerpt (row_series header row_b) = Inr (event_of row_b (JDict [])) \<and>
   event_data decoder_excerpt (row_series (butlast header) (butlast row_d)) = Inr (event_of row_d (JDict [])) \<and>
   map_of (event_of row_a (JDict [(''a'', JInt 1)])) ''metadata'' = Some (Parsed (JDict [(''a'', JInt 1)])) \<and>
   map_of (event_of row_b (JDict [])) ''metadata'' = Some (Parsed (JDict [])) \<and>
   map_of (event_of row_d (JDict [])) ''metadata'' = Some (Parsed (JDict []))"
proof -
  have a: "event_data decoder_excerpt (row_series header row_a) = Inr (event_of row_a (JDict [(''a'', JInt 1)]))"
    by (simp add: sample_defs eval_defs)
  have b: "event_data decoder_excerpt (row_series header row_b) = Inr (event_of row_b (JDict []))"
    by (simp add: sample_defs eval_defs)
  have d: "event_data decoder_excerpt (row_series (butlast header) (butlast row_d)) = Inr (event_of row_d (JDict []))"
    by (simp add: sample_defs eval_defs)
  show ?thesis
    using a b d event_data_metadata [OF a] event_data_metadata [OF b] event_data_metadata [OF d]
    by (simp add: event_of_def)
qed

text \<open>
  C3. Whenever a row yields a record, the record's \<open>recording_id\<close>, \<open>event_type_id\<close>,
  \<open>timestamp\<close> and \<open>offset_ms\<close> are the cells of these names of the Series \<open>iterrows\<close>
  handed out, as they are; these are the cells of the frame's row converted to the
  common dtype of the columns. The script converts and checks nothing itself: with any
  four cells whatever in their place, the Series still yields a record, which carries
  exactly these cells and the same metadata.
\<close>

theorem event_data_scalars:
  assumes "event_data dec (series_of cols ds r) = Inr ev"
  shows "(\<forall>k \<in> set required_columns.
            \<exists>c. series_of cols ds r k = Some c \<and> map_of ev k = Some (Cell c)) \<and>
         (\<forall>k \<in> set required_columns.
            \<exists>c. row_series cols r k = Some c \<and>
                map_of ev k = Some (Cell (astype (common_dtype ds) c))) \<and>
         (\<forall>a b c d.
            event_data dec ((series_of cols ds r)(''recording_id'' \<mapsto> a, ''event_type_id'' \<mapsto> b,
                                ''timestamp'' \<mapsto> c, ''offset_ms'' \<mapsto> d)) =
              Inr [(''recording_id'', Cell a), (''event_type_id'', Cell b),
                   (''timestamp'', Cell c), (''offset_ms'', Cell d), last ev])"
proof -
  let ?row = "series_of cols ds r"
  from assms obtain a0 b0 c0 d0 m where
    cells: "?row ''recording_id'' = Some a0" "?row ''event_type_id'' = Some b0"
      "?row ''timestamp'' = Some c0" "?row ''offset_ms'' = Some d0" and
    m: "metadata_value dec ?row = Inr m" and
    ev: "ev = [(''recording_id'', Cell a0), (''event_type_id'', Cell b0), (''timestamp'', Cell c0),
               (''offset_ms'', Cell d0), (''metadata'', Parsed m)]"
    by (auto simp: event_data_Inr_iff)
  have copied: "\<forall>k \<in> set required_columns. \<exists>c. ?row k = Some c \<and> map_of ev k = Some (Cell c)"
    using cells ev by (simp add: required_columns_def)
  have converted: "\<exists>c. row_series cols r k = Some c \<and>
      map_of ev k = Some (Cell (astype (common_dtype ds) c))"
    if "k \<in> set required_columns" for k
  proof -
    from copied that obtain c' where
      c': "?row k = Some c'" "map_of ev k = Some (Cell c')"
      by blast
    from c'(1) obtain c where "row_series cols r k = Some c" "c' = astype (common_dtype ds) c"
      by (auto simp: series_of_lookup)
    with c'(2) show ?thesis by simp
  qed
  have any: "event_data dec (?row(''recording_id'' \<mapsto> a, ''event_type_id'' \<mapsto> b,
                                ''timestamp'' \<mapsto> c, ''offset_ms'' \<mapsto> d)) =
      Inr [(''recording_id'', Cell a), (''event_type_id'', Cell b),
           (''timestamp'', Cell c), (''offset_ms'', Cell d), last ev]" for a b c d
  proof -
    let ?row' = "?row(''recording_id'' \<mapsto> a, ''event_type_id'' \<mapsto> b,
                    ''timestamp'' \<mapsto> c, ''offset_ms'' \<mapsto> d)"
    have "?row' ''metadata'' = ?row ''metadata''" by simp
    then have "metadata_value dec ?row' = Inr m"
      using m by (simp only: metadata_value_cases)
    moreover have "?row' ''recording_id'' = Some a" "?row' ''event_type_id'' = Some b"
      "?row' ''timestamp'' = Some c" "?row' ''offset_ms'' = Some d"
      by simp_all
    ultimately have "event_data dec ?row' =
        Inr [(''recording_id'', Cell a), (''event_type_id'', Cell b),
             (''timestamp'', Cell c), (''offset_ms'', Cell d), (''metadata'', Parsed m)]"
      by (simp only: event_data_Inr_iff) blast
    then show ?thesis
      by (simp add: ev)
  qed
  from copied converted any show ?thesis by blast
qed


theorem event_data_scalars_witness:
  "event_data decoder_excerpt (series_of header header_dtypes row_b) = Inr (event_of row_b (JDict [])) \<and>
   map_of (event_of row_b (JDict [])) ''timestamp'' = Some (Cell (CStr ''yesterday'')) \<and>
   map_of (event_of row_b (JDict [])) ''offset_ms'' = Some (Cell (CInt (- 5))) \<and>
   astype (common_dtype header_dtypes) (CInt (- 5)) = CInt (- 5) \<and>
   event_data decoder_excerpt
     ((series_of header header_dtypes row_b)(''recording_id'' \<mapsto> CStr ''r-17'',
        ''event_type_id'' \<mapsto> NaN, ''timestamp'' \<mapsto> CTimestamp 0, ''offset_ms'' \<mapsto> CBool False)) =
     Inr [(''recording_id'', Cell (CStr ''r-17'')), (''event_type_id'', Cell NaN),
          (''timestamp'', Cell (CTimestamp 0)), (''offset_ms'', Cell (CBool False)),
          (''metadata'', Parsed (JDict []))]"
proof -
  have b: "event_data decoder_excerpt (series_of header header_dtypes row_b) = Inr (event_of row_b (JDict []))"
    by (simp add: sample_defs eval_defs)
  have "event_data decoder_excerpt
     ((series_of header header_dtypes row_b)(''recording_id'' \<mapsto> CStr ''r-17'',
        ''event_type_id'' \<mapsto> NaN, ''timestamp'' \<mapsto> CTimestamp 0, ''offset_ms'' \<mapsto> CBool False)) =
     Inr [(''recording_id'', Cell (CStr ''r-17'')), (''event_type_id'', Cell NaN),
          (''timestamp'', Cell (CTimestamp 0)), (''offset_ms'', Cell (CBool False)),
          last (event_of row_b (JDict []))]"
    using event_data_scalars [OF b] by blast
  moreover have "astype (common_dtype header_dtypes) (CInt (- 5)) = CInt (- 5)"
    by (simp add: common_dtype_def header_dtypes_def)
  ultimately show ?thesis
    using b by (simp add: event_of_def row_b_def)
qed

text \<open>
  C3 does not hold of the cells of the frame: in a sheet whose columns are \<open>int64\<close> and
  \<open>float64\<close> the common dtype is \<open>float64\<close>, and the record carries the integer cells as
  floats.
\<close>

theorem numeric_sheet_cells_become_floats:
  "row_series header row_n ''recording_id'' = Some (CInt 1) \<and>
   main accept_all decoder_excerpt
     \<lparr>columns = header, dtypes = numeric_dtypes, data = [row_n]\<rparr> start =
     (None,
      \<lparr>requests =
         [(''events'',
           [(''recording_id'', Cell (CFloat 1 0)), (''event_type_id'', Cell (CFloat 10 0)),
            (''timestamp'', Cell (CFloat 1700000000 0)), (''offset_ms'', Cell (CFloat (- 5) 0)),
            (''metadata'', Parsed (JDict []))])],
       committed =
         [[(''recording_id'', Cell (CFloat 1 0)), (''event_type_id'', Cell (CFloat 10 0)),
           (''timestamp'', Cell (CFloat 1700000000 0)), (''offset_ms'', Cell (CFloat (- 5) 0)),
           (''metadata'', Parsed (JDict []))]]\<rparr>)"
  by (simp add: numeric_dtypes_def row_n_def sample_defs eval_defs)



text \<open>
  C9. When the metadata cell is a string that decodes to a value which is not a dict
  (\<open>None\<close> for the text \<open>null\<close>, a number, a list), the record's \<open>metadata\<close> is that value and
  not the empty dict \<open>{}\<close>.
\<close>

theorem metadata_non_dict:
  assumes "event_data dec row = Inr ev"
    and "row ''metadata'' = Some (CStr s)"
    and "dec s = Some v"
    and "\<not> is_dict v"
  shows "map_of ev ''metadata'' = Some (Parsed v) \<and> v \<noteq> JDict []"
proof -
  have "metadata_value dec row = Inr v"
    using assms(2,3) by (simp add: metadata_value_cases json_loads_def)
  with assms(1) have "map_of ev ''metadata'' = Some (Parsed v)"
    by (auto simp: event_data_Inr_iff)
  moreover from assms(4) have "v \<noteq> JDict []" by auto
  ultimately show ?thesis by simp
qed

theorem metadata_non_dict_witness:
  "event_data decoder_excerpt (row_series header row_c) = Inr (event_of row_c (JList [JInt 1, JInt 2])) \<and>
   row_series header row_c ''metadata'' = Some (CStr ''[1, 2]'') \<and>
   decoder_excerpt ''[1, 2]'' = Some (JList [JInt 1, JInt 2]) \<and>
   \<not> is_dict (JList [JInt 1, JInt 2]) \<and>
   map_of (event_of row_c (JList [JInt 1, JInt 2])) ''metadata'' = Some (Parsed (JList [JInt 1, JInt 2])) \<and>
   event_data decoder_excerpt (row_series header row_d) = Inr (event_of row_d JNull) \<and>
   row_series header row_d ''metadata'' = Some (CStr ''null'') \<and>
   decoder_excerpt ''null'' = Some JNull \<and> \<not> is_dict JNull \<and>
   map_of (event_of row_d JNull) ''metadata'' = Some (Parsed JNull) \<and> JNull \<noteq> JDict []"
proof -
  have c: "event_data decoder_excerpt (row_series header row_c) = Inr (event_of row_c (JList [JInt 1, JInt 2]))"
    by (simp add: sample_defs eval_defs)
  have c_cell: "row_series header row_c ''metadata'' = Some (CStr ''[1, 2]'')"
    by (simp add: sample_defs eval_defs)
  have c_dec: "decoder_excerpt ''[1, 2]'' = Some (JList [JInt 1, JInt 2])"
    by (simp add: decoder_excerpt_def)
  have c_nd: "\<not> is_dict (JList [JInt 1, JInt 2])" by simp
  have d: "event_data decoder_excerpt (row_series header row_d) = Inr (event_of row_d JNull)"
    by (simp add: sample_defs eval_defs)
  have d_cell: "row_series header row_d ''metadata'' = Some (CStr ''null'')"
    by (simp add: sample_defs eval_defs)
  have d_dec: "decoder_excerpt ''null'' = Some JNull"
    by (simp add: decoder_excerpt_def)
  have d_nd: "\<not> is_dict JNull" by simp
  from metadata_non_dict [OF c c_cell c_dec c_nd] metadata_non_dict [OF d d_cell d_dec d_nd]
    c c_cell c_dec c_nd d d_cell d_dec d_nd
  show ?thesis by simp
qed

subsection \<open>The run over a sheet\<close>

text \<open>
  C4. For a sheet of \<open>N\<close> valid rows, that is, every row yields a record and no insert
  request of the run fails, the run ends without an exception and has issued exactly \<open>N\<close>
  insert requests, all for the table \<open>events\<close>: the records of the rows, one per row, in the
  order of the rows.
\<close>

theorem main_inserts_each_row:
  assumes valid: "\<forall>r \<in> set (data df). \<exists>ev. event_data dec (series_of (columns df) (dtypes df) r) = Inr ev"
    and no_failure: "fst (main be dec df w) \<noteq> Some InsertError"
  shows "\<exists>evs. length evs = length (data df) \<and>
           map (\<lambda>r. event_data dec (series_of (columns df) (dtypes df) r)) (data df) = map Inr evs \<and>
           main be dec df w =
             (None, w\<lparr>requests := requests w @ map (Pair ''events'') evs,
                      committed := committed w @ evs\<rparr>)"
proof -
  let ?rows = "map (series_of (columns df) (dtypes df)) (data df)"
  have run: "main be dec df w = import_rows be dec ?rows w"
    by (simp add: main_def map_snd_iterrows)
  obtain r w' where res: "import_rows be dec ?rows w = (r, w')"
    by (cases "import_rows be dec ?rows w")
  have "r = None"
  proof (cases r)
    case None
    then show ?thesis .
  next
    case (Some e)
    have "\<forall>row \<in> set ?rows. \<exists>ev. event_data dec row = Inr ev"
      using valid by simp
    with Some res have "e = InsertError"
      by (blast dest: import_rows_error_kind)
    with Some res run no_failure show ?thesis by simp
  qed
  with res obtain evs where
    evs: "map (event_data dec) ?rows = map Inr evs" and
    w': "w' = w\<lparr>requests := requests w @ map (Pair ''events'') evs,
                 committed := committed w @ evs\<rparr>"
    by (auto dest: import_rows_complete)
  from evs have "length evs = length (data df)"
    by (metis length_map)
  moreover from evs have
    "map (\<lambda>r. event_data dec (series_of (columns df) (dtypes df) r)) (data df) = map Inr evs"
    by (simp add: comp_def)
  ultimately show ?thesis
    using run res \<open>r = None\<close> w' by auto
qed

theorem main_inserts_each_row_witness:
  "event_data decoder_excerpt (series_of header header_dtypes row_a) = Inr (event_of row_a (JDict [(''a'', JInt 1)])) \<and>
   event_data decoder_excerpt (series_of header header_dtypes row_b) = Inr (event_of row_b (JDict [])) \<and>
   event_data decoder_excerpt (series_of header header_dtypes row_c) = Inr (event_of row_c (JList [JInt 1, JInt 2])) \<and>
   fst (main accept_all decoder_excerpt \<lparr>columns = header, dtypes = header_dtypes, data = [row_a, row_b, row_c]\<rparr> start) \<noteq> Some InsertError \<and>
   main accept_all decoder_excerpt \<lparr>columns = header, dtypes = header_dtypes, data = [row_a, row_b, row_c]\<rparr> start =
     (None,
      \<lparr>requests = [(''events'', event_of row_a (JDict [(''a'', JInt 1)])),
                   (''events'', event_of row_b (JDict [])),
                   (''events'', event_of row_c (JList [JInt 1, JInt 2]))],
       committed = [event_of row_a (JDict [(''a'', JInt 1)]), event_of row_b (JDict []),
                    event_of row_c (JList [JInt 1, JInt 2])]\<rparr>)"
proof -
  let ?df = "\<lparr>columns = header, dtypes = header_dtypes, data = [row_a, row_b, row_c]\<rparr>"
  have a: "event_data decoder_excerpt (series_of header header_dtypes row_a) = Inr (event_of row_a (JDict [(''a'', JInt 1)]))"
    by (simp add: sample_defs eval_defs)
  have b: "event_data decoder_excerpt (series_of header header_dtypes row_b) = Inr (event_of row_b (JDict []))"
    by (simp add: sample_defs eval_defs)
  have c: "event_data decoder_excerpt (series_of header header_dtypes row_c) = Inr (event_of row_c (JList [JInt 1, JInt 2]))"
    by (simp add: sample_defs eval_defs)
  from a b c have valid:
    "\<forall>r \<in> set (data ?df). \<exists>ev. event_data decoder_excerpt (series_of (columns ?df) (dtypes ?df) r) = Inr ev"
    by simp
  have run: "main accept_all decoder_excerpt ?df start =
     (None,
      \<lparr>requests = [(''events'', event_of row_a (JDict [(''a'', JInt 1)])),
                   (''events'', event_of row_b (JDict [])),
                   (''events'', event_of row_c (JList [JInt 1, JInt 2]))],
       committed = [event_of row_a (JDict [(''a'', JInt 1)]), event_of row_b (JDict []),
                    event_of row_c (JList [JInt 1, JInt 2])]\<rparr>)"
    by (simp add: sample_defs eval_defs)
  then have ok: "fst (main accept_all decoder_excerpt ?df start) \<noteq> Some InsertError"
    by simp
  from main_inserts_each_row [OF valid ok] a b c ok run show ?thesis
    by blast
qed

text \<open>
  C5. When the rows before a row have been imported and the insert request for the row
  fails, the run ends there with the exception of the request, whatever rows follow:
  the records of the earlier rows stay committed, one request was issued for each earlier
  row and one for the failing row, and none for a later row.
\<close>

theorem insert_failure_ends_run:
  assumes before: "main be dec \<lparr>columns = cols, dtypes = ds, data = pre\<rparr> w = (None, w1)"
    and built: "event_data dec (series_of cols ds r) = Inr ev"
    and fails: "\<not> be w1 ''events'' ev"
  shows "main be dec \<lparr>columns = cols, dtypes = ds, data = pre @ r # rest\<rparr> w =
           (Some InsertError, w1\<lparr>requests := requests w1 @ [(''events'', ev)]\<rparr>) \<and>
         (\<exists>evs. length evs = length pre \<and>
            map (\<lambda>p. event_data dec (series_of cols ds p)) pre = map Inr evs \<and>
            requests w1 = requests w @ map (Pair ''events'') evs \<and>
            committed (w1\<lparr>requests := requests w1 @ [(''events'', ev)]\<rparr>) = committed w @ evs)"
proof
  from before have pre: "import_rows be dec (map (series_of cols ds) pre) w = (None, w1)"
    by (simp add: main_eq)
  from built fails have
    "process_row be dec (series_of cols ds r) w1 =
       (Some InsertError, w1\<lparr>requests := requests w1 @ [(''events'', ev)]\<rparr>)"
    by (simp add: process_row_Some)
  with pre show "main be dec \<lparr>columns = cols, dtypes = ds, data = pre @ r # rest\<rparr> w =
      (Some InsertError, w1\<lparr>requests := requests w1 @ [(''events'', ev)]\<rparr>)"
    by (simp add: main_eq import_rows_append)
  from import_rows_complete [OF pre] obtain evs where
    evs: "map (event_data dec) (map (series_of cols ds) pre) = map Inr evs" and
    w1: "w1 = w\<lparr>requests := requests w @ map (Pair ''events'') evs,
                 committed := committed w @ evs\<rparr>"
    by blast
  from evs have "length evs = length pre"
    by (metis length_map)
  moreover from evs have "map (\<lambda>p. event_data dec (series_of cols ds p)) pre = map Inr evs"
    by (simp add: comp_def)
  ultimately show "\<exists>evs. length evs = length pre \<and>
      map (\<lambda>p. event_data dec (series_of cols ds p)) pre = map Inr evs \<and>
      requests w1 = requests w @ map (Pair ''events'') evs \<and>
      committed (w1\<lparr>requests := requests w1 @ [(''events'', ev)]\<rparr>) = committed w @ evs"
    using w1 by auto
qed

theorem insert_failure_ends_run_witness:
  "main (fail_from 1) decoder_excerpt \<lparr>columns = header, dtypes = header_dtypes, data = [row_a]\<rparr> start =
     (None, \<lparr>requests = [(''events'', event_of row_a (JDict [(''a'', JInt 1)]))],
             committed = [event_of row_a (JDict [(''a'', JInt 1)])]\<rparr>) \<and>
   event_data decoder_excerpt (series_of header header_dtypes row_b) = Inr (event_of row_b (JDict [])) \<and>
   \<not> fail_from 1 \<lparr>requests = [(''events'', event_of row_a (JDict [(''a'', JInt 1)]))],
                    committed = [event_of row_a (JDict [(''a'', JInt 1)])]\<rparr>
        ''events'' (event_of row_b (JDict [])) \<and>
   main (fail_from 1) decoder_excerpt \<lparr>columns = header, dtypes = header_dtypes, data = [row_a, row_b, row_c]\<rparr> start =
     (Some InsertError,
      \<lparr>requests = [(''events'', event_of row_a (JDict [(''a'', JInt 1)])),
                   (''events'', event_of row_b (JDict []))],
       committed = [event_of row_a (JDict [(''a'', JInt 1)])]\<rparr>)"
proof -
  let ?w1 = "\<lparr>requests = [(''events'', event_of row_a (JDict [(''a'', JInt 1)]))],
              committed = [event_of row_a (JDict [(''a'', JInt 1)])]\<rparr>"
  have before: "main (fail_from 1) decoder_excerpt \<lparr>columns = header, dtypes = header_dtypes, data = [row_a]\<rparr> start = (None, ?w1)"
    by (simp add: sample_defs eval_defs)
  have built: "event_data decoder_excerpt (series_of header header_dtypes row_b) = Inr (event_of row_b (JDict []))"
    by (simp add: sample_defs eval_defs)
  have fails: "\<not> fail_from 1 ?w1 ''events'' (event_of row_b (JDict []))"
    by (simp add: fail_from_def)
  from insert_failure_ends_run [OF before built fails, of "[row_c]"] before built fails
  show ?thesis by simp
qed

text \<open>
  C2, for a sheet with the four required columns and a row that the run reaches. A sheet
  with a row whose metadata cell is not null and is rejected by \<open>json.loads\<close> never runs
  to completion, and the rows after that row play no part: the run is the run of the
  sheet cut after that row. When the required columns exist and the rows before have been
  imported, the run ends at that row with the exception \<open>json.loads\<close> raised, in the world
  the earlier rows left.
\<close>

theorem bad_metadata_aborts_run:
  assumes cell: "series_of cols ds bad ''metadata'' = Some c"
    and nonnull: "notna c"
    and invalid: "json_loads dec c = Inl e"
  shows "fst (main be dec \<lparr>columns = cols, dtypes = ds, data = pre @ bad # rest\<rparr> w) \<noteq> None \<and>
         main be dec \<lparr>columns = cols, dtypes = ds, data = pre @ bad # rest\<rparr> w =
           main be dec \<lparr>columns = cols, dtypes = ds, data = pre @ [bad]\<rparr> w \<and>
         (\<forall>w1. set required_columns \<subseteq> set cols \<and>
                main be dec \<lparr>columns = cols, dtypes = ds, data = pre\<rparr> w = (None, w1) \<longrightarrow>
            main be dec \<lparr>columns = cols, dtypes = ds, data = pre @ bad # rest\<rparr> w = (Some e, w1))"
proof -
  from cell nonnull invalid obtain e' where
    e': "event_data dec (series_of cols ds bad) = Inl e'"
    using bad_metadata_Inl [where row = "series_of cols ds bad"] by blast
  have stop: "main be dec \<lparr>columns = cols, dtypes = ds, data = pre @ bad # ys\<rparr> w =
     (case main be dec \<lparr>columns = cols, dtypes = ds, data = pre\<rparr> w of
        (Some e0, w0) \<Rightarrow> (Some e0, w0)
      | (None, w1) \<Rightarrow> (Some e', w1))" for ys
    using import_rows_stop [OF e', of be "map (series_of cols ds) pre" "map (series_of cols ds) ys" w]
    by (simp add: main_eq)
  have "fst (main be dec \<lparr>columns = cols, dtypes = ds, data = pre @ bad # rest\<rparr> w) \<noteq> None"
    by (simp add: stop split: prod.splits option.splits)
  moreover have "main be dec \<lparr>columns = cols, dtypes = ds, data = pre @ bad # rest\<rparr> w =
      main be dec \<lparr>columns = cols, dtypes = ds, data = pre @ [bad]\<rparr> w"
    by (simp add: stop [of rest] stop [of "[]"])
  moreover have "main be dec \<lparr>columns = cols, dtypes = ds, data = pre @ bad # rest\<rparr> w = (Some e, w1)"
    if req: "set required_columns \<subseteq> set cols"
      and before: "main be dec \<lparr>columns = cols, dtypes = ds, data = pre\<rparr> w = (None, w1)" for w1
  proof -
    from req have "\<forall>k \<in> set required_columns. k \<in> dom (series_of cols ds bad)"
      by (auto simp: dom_series_of)
    with cell nonnull invalid have "event_data dec (series_of cols ds bad) = Inl e"
      using bad_metadata_error [where row = "series_of cols ds bad"] by blast
    with e' have "e' = e"
      by simp
    with before show ?thesis
      by (simp add: stop)
  qed
  ultimately show ?thesis by blast
qed

theorem bad_metadata_aborts_run_witness:
  "series_of header header_dtypes row_bad ''metadata'' = Some (CStr ''{bad json'') \<and>
   notna (CStr ''{bad json'') \<and>
   json_loads decoder_excerpt (CStr ''{bad json'') = Inl JSONDecodeError \<and>
   set required_columns \<subseteq> set header \<and>
   main accept_all decoder_excerpt \<lparr>columns = header, dtypes = header_dtypes, data = [row_a]\<rparr> start =
     (None, \<lparr>requests = [(''events'', event_of row_a (JDict [(''a'', JInt 1)]))],
             committed = [event_of row_a (JDict [(''a'', JInt 1)])]\<rparr>) \<and>
   main accept_all decoder_excerpt \<lparr>columns = header, dtypes = header_dtypes, data = [row_a, row_bad, row_b]\<rparr> start =
     (Some JSONDecodeError,
      \<lparr>requests = [(''events'', event_of row_a (JDict [(''a'', JInt 1)]))],
       committed = [event_of row_a (JDict [(''a'', JInt 1)])]\<rparr>)"
proof -
  let ?w1 = "\<lparr>requests = [(''events'', event_of row_a (JDict [(''a'', JInt 1)]))],
              committed = [event_of row_a (JDict [(''a'', JInt 1)])]\<rparr>"
  have cell: "series_of header header_dtypes row_bad ''metadata'' = Some (CStr ''{bad json'')"
    by (simp add: sample_defs eval_defs)
  have nonnull: "notna (CStr ''{bad json'')" by simp
  have invalid: "json_loads decoder_excerpt (CStr ''{bad json'') = Inl JSONDecodeError"
    by (simp add: json_loads_def decoder_excerpt_def)
  have req: "set required_columns \<subseteq> set header"
    by (simp add: required_columns_def header_def)
  have before: "main accept_all decoder_excerpt \<lparr>columns = header, dtypes = header_dtypes, data = [row_a]\<rparr> start = (None, ?w1)"
    by (simp add: sample_defs eval_defs)
  have "\<forall>w1. set required_columns \<subseteq> set header \<and>
      main accept_all decoder_excerpt \<lparr>columns = header, dtypes = header_dtypes, data = [row_a]\<rparr> start = (None, w1) \<longrightarrow>
      main accept_all decoder_excerpt \<lparr>columns = header, dtypes = header_dtypes, data = [row_a] @ row_bad # [row_b]\<rparr> start =
        (Some JSONDecodeError, w1)"
    using bad_metadata_aborts_run [OF cell nonnull invalid, of accept_all "[row_a]" "[row_b]" start]
    by blast
  from this [THEN spec, THEN mp, OF conjI [OF req before]]
  have "main accept_all decoder_excerpt \<lparr>columns = header, dtypes = header_dtypes, data = [row_a, row_bad, row_b]\<rparr> start =
      (Some JSONDecodeError, ?w1)"
    by simp
  with cell nonnull invalid req before show ?thesis by simp
qed

text \<open>
  C2 does not extend to a sheet that misses a required column: here \<open>offset_ms\<close> is
  missing, the dict display reaches \<open>row["offset_ms"]\<close> before the metadata, and the run
  ends with \<open>KeyError\<close>, not with the exception of \<open>json.loads\<close>.
\<close>

theorem bad_metadata_sheet_key_error:
  "series_of [''recording_id'', ''event_type_id'', ''timestamp'', ''metadata'']
     [Int64, Int64, Object, Object]
     [CInt 2, CInt 12, CStr ''2024-01-02T00:00:00'', CStr ''{bad json''] ''metadata'' =
     Some (CStr ''{bad json'') \<and>
   notna (CStr ''{bad json'') \<and>
   json_loads decoder_excerpt (CStr ''{bad json'') = Inl JSONDecodeError \<and>
   main accept_all decoder_excerpt
     \<lparr>columns = [''recording_id'', ''event_type_id'', ''timestamp'', ''metadata''],
      dtypes = [Int64, Int64, Object, Object],
      data = [[CInt 2, CInt 12, CStr ''2024-01-02T00:00:00'', CStr ''{bad json'']]\<rparr> start =
     (Some (KeyError ''offset_ms''), start)"
  by (simp add: sample_defs eval_defs)

text \<open>
  C10. When \<open>json.loads\<close> rejects the metadata cell of a row, no record is built for the
  row, and the body of the loop ends with an exception in the world it started from: no
  request is issued for the row. After the run, the world is the one the rows before
  that row left.
\<close>

theorem bad_metadata_no_insert:
  assumes cell: "series_of cols ds bad ''metadata'' = Some c"
    and nonnull: "notna c"
    and invalid: "json_loads dec c = Inl e"
  shows "(\<exists>e'. event_data dec (series_of cols ds bad) = Inl e' \<and>
            process_row be dec (series_of cols ds bad) w = (Some e', w)) \<and>
         snd (main be dec \<lparr>columns = cols, dtypes = ds, data = pre @ bad # rest\<rparr> w) =
           snd (main be dec \<lparr>columns = cols, dtypes = ds, data = pre\<rparr> w)"
proof -
  from cell nonnull invalid obtain e' where
    e': "event_data dec (series_of cols ds bad) = Inl e'"
    using bad_metadata_Inl [where row = "series_of cols ds bad"] by blast
  then have "process_row be dec (series_of cols ds bad) w = (Some e', w)"
    by (simp add: process_row_def)
  moreover have "snd (main be dec \<lparr>columns = cols, dtypes = ds, data = pre @ bad # rest\<rparr> w) =
      snd (main be dec \<lparr>columns = cols, dtypes = ds, data = pre\<rparr> w)"
    using import_rows_stop [OF e', of be "map (series_of cols ds) pre" "map (series_of cols ds) rest" w]
    by (simp add: main_eq split: prod.splits option.splits)
  ultimately show ?thesis
    using e' by blast
qed

theorem bad_metadata_no_insert_witness:
  "series_of header header_dtypes row_bad ''metadata'' = Some (CStr ''{bad json'') \<and>
   notna (CStr ''{bad json'') \<and>
   json_loads decoder_excerpt (CStr ''{bad json'') = Inl JSONDecodeError \<and>
   process_row accept_all decoder_excerpt (series_of header header_dtypes row_bad) start =
     (Some JSONDecodeError, start) \<and>
   requests (snd (main accept_all decoder_excerpt \<lparr>columns = header, dtypes = header_dtypes, data = [row_bad, row_b]\<rparr> start)) = []"
proof -
  have cell: "series_of header header_dtypes row_bad ''metadata'' = Some (CStr ''{bad json'')"
    by (simp add: sample_defs eval_defs)
  have nonnull: "notna (CStr ''{bad json'')" by simp
  have invalid: "json_loads decoder_excerpt (CStr ''{bad json'') = Inl JSONDecodeError"
    by (simp add: json_loads_def decoder_excerpt_def)
  have step: "process_row accept_all decoder_excerpt (series_of header header_dtypes row_bad) start =
      (Some JSONDecodeError, start)"
    by (simp add: sample_defs eval_defs)
  have "snd (main accept_all decoder_excerpt \<lparr>columns = header, dtypes = header_dtypes, data = [] @ row_bad # [row_b]\<rparr> start) =
      snd (main accept_all decoder_excerpt \<lparr>columns = header, dtypes = header_dtypes, data = []\<rparr> start)"
    using bad_metadata_no_insert [OF cell nonnull invalid, of accept_all start "[]" "[row_b]"]
    by blast
  then have "requests (snd (main accept_all decoder_excerpt \<lparr>columns = header, dtypes = header_dtypes, data = [row_bad, row_b]\<rparr> start)) = []"
    by (simp add: main_eq start_def)
  with cell nonnull invalid step show ?thesis by simp
qed

text \<open>
  C6, for a sheet with at least one data row. When the sheet misses a required column,
  the run ends at the first row with \<open>KeyError\<close> for the first required column that is
  missing, in the world it started from: no insert request is issued.
\<close>

theorem missing_column_key_error:
  assumes required: "c \<in> set required_columns"
    and missing: "c \<notin> set (columns df)"
    and nonempty: "data df \<noteq> []"
  shows "\<exists>k. find (\<lambda>k. k \<notin> set (columns df)) required_columns = Some k \<and>
           main be dec df w = (Some (KeyError k), w)"
proof -
  from required missing obtain k where
    k: "find (\<lambda>k. k \<notin> set (columns df)) required_columns = Some k"
    by (cases "find (\<lambda>k. k \<notin> set (columns df)) required_columns")
       (auto simp: find_None_iff)
  from nonempty obtain r rs where rows: "data df = r # rs"
    by (cases "data df") auto
  from k have "find (\<lambda>k. k \<notin> dom (series_of (columns df) (dtypes df) r)) required_columns = Some k"
    by (simp add: dom_series_of)
  then have "event_data dec (series_of (columns df) (dtypes df) r) = Inl (KeyError k)"
    by (rule first_missing_KeyError)
  then have "main be dec df w = (Some (KeyError k), w)"
    by (simp add: main_def map_snd_iterrows rows process_row_def)
  with k show ?thesis by blast
qed

theorem missing_column_key_error_witness:
  "''timestamp'' \<in> set required_columns \<and>
   ''timestamp'' \<notin> set (columns \<lparr>columns = [''recording_id'', ''event_type_id'', ''metadata''],
      dtypes = [Int64, Int64, Object],
      data = [[CInt 1, CInt 10, CStr ''{bad json''], [CInt 2, CInt 11, NaN]]\<rparr>) \<and>
   data \<lparr>columns = [''recording_id'', ''event_type_id'', ''metadata''],
      dtypes = [Int64, Int64, Object],
      data = [[CInt 1, CInt 10, CStr ''{bad json''], [CInt 2, CInt 11, NaN]]\<rparr> \<noteq> [] \<and>
   main accept_all decoder_excerpt
     \<lparr>columns = [''recording_id'', ''event_type_id'', ''metadata''],
      dtypes = [Int64, Int64, Object],
      data = [[CInt 1, CInt 10, CStr ''{bad json''], [CInt 2, CInt 11, NaN]]\<rparr> start =
     (Some (KeyError ''timestamp''), start)"
proof -
  let ?df = "\<lparr>columns = [''recording_id'', ''event_type_id'', ''metadata''],
      dtypes = [Int64, Int64, Object],
      data = [[CInt 1, CInt 10, CStr ''{bad json''], [CInt 2, CInt 11, NaN]]\<rparr>"
  have required: "''timestamp'' \<in> set required_columns"
    by (simp add: required_columns_def)
  have missing: "''timestamp'' \<notin> set (columns ?df)" by simp
  have nonempty: "data ?df \<noteq> []" by simp
  from missing_column_key_error [OF required missing nonempty, of accept_all decoder_excerpt start]
  have "main accept_all decoder_excerpt ?df start = (Some (KeyError ''timestamp''), start)"
    by (simp add: required_columns_def)
  with required missing nonempty show ?thesis by simp
qed

text \<open>
  C6 does not extend to a sheet without data rows: here the header misses
  \<open>recording_id\<close>, the loop body never runs, and the run ends without an exception.
\<close>

theorem header_only_sheet_completes:
  "''recording_id'' \<in> set required_columns \<and>
   ''recording_id'' \<notin> set (columns \<lparr>columns = [''event_type_id'', ''timestamp'', ''offset_ms'', ''metadata''],
      dtypes = [Object, Object, Object, Object], data = []\<rparr>) \<and>
   main accept_all decoder_excerpt
     \<lparr>columns = [''event_type_id'', ''timestamp'', ''offset_ms'', ''metadata''],
      dtypes = [Object, Object, Object, Object], data = []\<rparr> start =
     (None, start)"
  by (simp add: required_columns_def main_def iterrows_def)

end
